theory Spec2Isabelle
  imports Complex_Main "HOL-Library.AList"
begin

section \<open>Conventions of the embedding\<close>

text \<open>
  The repository is Python over pandas and numpy. Python floats are idealised as
  \<^typ>\<open>real\<close>: rounding is not modelled. A division of two Python floats raises
  \<^verbatim>\<open>ZeroDivisionError\<close> on a zero divisor, and the model returns that error; a
  division of numpy floats raises nothing and yields a non-finite float, which the
  metric functions return as a value of \<open>npfloat\<close>. The risk monitor stores whatever
  float it is handed, NaN and the infinities included, so its capitals are values of
  \<open>npfloat\<close> as well and its arithmetic is the float arithmetic on them.
  Objects are records passed explicitly, and a method returns the updated object.
  Several classes of the repository share attribute names (\<^verbatim>\<open>trades\<close>,
  \<^verbatim>\<open>equity_curve\<close>, \<^verbatim>\<open>current_capital\<close>); the record fields carry a
  short prefix naming their class.
\<close>

datatype error =
    ZeroDivisionError
  | ValueError
  | IndexError
  | StrategyError

text \<open>A float with its non-finite values: a finite value, an infinity or NaN.\<close>

datatype npfloat = Finite real | PosInf | NegInf | NaN

text \<open>The float operations the risk monitor uses. Every comparison with NaN is false;
  the infinities are the ends of the order; a difference or quotient of two infinities
  is NaN and NaN propagates through arithmetic. A Python float division raises on a zero
  divisor.\<close>

fun is_finite :: "npfloat \<Rightarrow> bool" where
  "is_finite (Finite x) = True"
| "is_finite PosInf = False"
| "is_finite NegInf = False"
| "is_finite NaN = False"

fun fl_gt :: "npfloat \<Rightarrow> npfloat \<Rightarrow> bool" where
  "fl_gt (Finite x) (Finite y) = (x > y)"
| "fl_gt (Finite x) NegInf = True"
| "fl_gt PosInf (Finite y) = True"
| "fl_gt PosInf NegInf = True"
| "fl_gt a b = False"

fun fl_ge :: "npfloat \<Rightarrow> npfloat \<Rightarrow> bool" where
  "fl_ge (Finite x) (Finite y) = (x \<ge> y)"
| "fl_ge (Finite x) NegInf = True"
| "fl_ge PosInf (Finite y) = True"
| "fl_ge PosInf NegInf = True"
| "fl_ge PosInf PosInf = True"
| "fl_ge NegInf NegInf = True"
| "fl_ge a b = False"

fun fl_sub :: "npfloat \<Rightarrow> npfloat \<Rightarrow> npfloat" where
  "fl_sub (Finite x) (Finite y) = Finite (x - y)"
| "fl_sub (Finite x) PosInf = NegInf"
| "fl_sub (Finite x) NegInf = PosInf"
| "fl_sub PosInf (Finite y) = PosInf"
| "fl_sub PosInf NegInf = PosInf"
| "fl_sub NegInf (Finite y) = NegInf"
| "fl_sub NegInf PosInf = NegInf"
| "fl_sub a b = NaN"

fun py_float_div :: "npfloat \<Rightarrow> npfloat \<Rightarrow> error + npfloat" where
  "py_float_div a (Finite y) =
     (if y = 0 then Inl ZeroDivisionError
      else case a of
             Finite x \<Rightarrow> Inr (Finite (x / y))
           | PosInf \<Rightarrow> Inr (if y > 0 then PosInf else NegInf)
           | NegInf \<Rightarrow> Inr (if y > 0 then NegInf else PosInf)
           | NaN \<Rightarrow> Inr NaN)"
| "py_float_div (Finite x) PosInf = Inr (Finite 0)"
| "py_float_div (Finite x) NegInf = Inr (Finite 0)"
| "py_float_div a b = Inr NaN"

section \<open>risk\_management/risk.py: RiskMonitor\<close>

record RiskMonitor =
  rm_max_drawdown :: npfloat
  rm_max_daily_loss :: npfloat
  rm_max_position_size :: npfloat
  rm_peak_capital :: npfloat
  rm_current_capital :: npfloat
  rm_daily_pnl :: npfloat

text \<open>\<^verbatim>\<open>RiskMonitor.__init__\<close>: the three limits are arguments, peak and current capital
  start at 1.0.\<close>

definition RiskMonitor_init :: "npfloat \<Rightarrow> npfloat \<Rightarrow> npfloat \<Rightarrow> RiskMonitor" where
  "RiskMonitor_init max_drawdown max_daily_loss max_position_size =
     \<lparr> rm_max_drawdown = max_drawdown,
       rm_max_daily_loss = max_daily_loss,
       rm_max_position_size = max_position_size,
       rm_peak_capital = Finite 1,
       rm_current_capital = Finite 1,
       rm_daily_pnl = Finite 0 \<rparr>"

text \<open>\<^verbatim>\<open>update_capital\<close> stores the new capital unchecked and raises the peak when
  \<^verbatim>\<open>new_capital > self.peak_capital\<close>, a test that NaN never passes.\<close>

definition update_capital :: "RiskMonitor \<Rightarrow> npfloat \<Rightarrow> RiskMonitor" where
  "update_capital m new_capital =
     (let m1 = m\<lparr>rm_current_capital := new_capital\<rparr>
      in if fl_gt new_capital (rm_peak_capital m1)
         then m1\<lparr>rm_peak_capital := new_capital\<rparr>
         else m1)"

text \<open>\<^verbatim>\<open>get_current_drawdown\<close>: the guard \<^verbatim>\<open>self.peak_capital == 0\<close>, then the Python
  division by the peak.\<close>

definition get_current_drawdown :: "RiskMonitor \<Rightarrow> error + npfloat" where
  "get_current_drawdown m =
     (if rm_peak_capital m = Finite 0 then Inr (Finite 0)
      else py_float_div (fl_sub (rm_peak_capital m) (rm_current_capital m))
             (rm_peak_capital m))"

definition is_drawdown_exceeded :: "RiskMonitor \<Rightarrow> error + bool" where
  "is_drawdown_exceeded m =
     (case get_current_drawdown m of
        Inl e \<Rightarrow> Inl e
      | Inr d \<Rightarrow> Inr (fl_gt d (rm_max_drawdown m)))"

text \<open>The states in which peak and current capital are finite, the peak at least 1.0
  and at least the current capital.\<close>

definition finite_peak_state :: "RiskMonitor \<Rightarrow> bool" where
  "finite_peak_state m =
     (case (rm_peak_capital m, rm_current_capital m) of
        (Finite p, Finite c) \<Rightarrow> c \<le> p \<and> 1 \<le> p
      | _ \<Rightarrow> False)"

section \<open>risk\_management/risk.py: Portfolio\<close>

text \<open>An open position is the dict stored by \<^verbatim>\<open>add_position\<close>; a closed trade is the
  dict appended by \<^verbatim>\<open>close_position\<close>. \<^verbatim>\<open>pd.Timestamp.now()\<close> is read from the
  environment, so the clock value is an argument of both methods.\<close>

record OpenPosition =
  op_quantity :: real
  op_entry_price :: real
  op_stop_loss :: real
  op_take_profit :: real
  op_entry_time :: nat

record ClosedTrade =
  ct_symbol :: string
  ct_entry_price :: real
  ct_exit_price :: real
  ct_quantity :: real
  ct_pnl :: real
  ct_pnl_percent :: real
  ct_entry_time :: nat
  ct_exit_time :: nat
  ct_reason :: string

record Portfolio =
  pf_initial_capital :: real
  pf_current_capital :: real
  pf_positions :: "string \<rightharpoonup> OpenPosition"
  pf_trades :: "ClosedTrade list"
  pf_equity_curve :: "real list"

definition Portfolio_init :: "real \<Rightarrow> Portfolio" where
  "Portfolio_init initial_capital =
     \<lparr> pf_initial_capital = initial_capital,
       pf_current_capital = initial_capital,
       pf_positions = Map.empty,
       pf_trades = [],
       pf_equity_curve = [initial_capital] \<rparr>"

definition add_position ::
  "Portfolio \<Rightarrow> string \<Rightarrow> real \<Rightarrow> real \<Rightarrow> real \<Rightarrow> real \<Rightarrow> nat \<Rightarrow> Portfolio" where
  "add_position p symbol quantity entry_price stop_loss take_profit now =
     p\<lparr>pf_positions := (pf_positions p)(symbol \<mapsto>
          \<lparr> op_quantity = quantity,
            op_entry_price = entry_price,
            op_stop_loss = stop_loss,
            op_take_profit = take_profit,
            op_entry_time = now \<rparr>)\<rparr>"

text \<open>\<^verbatim>\<open>close_position\<close> returns the P\&L and mutates the portfolio. The result is the
  pair of the outcome and the portfolio after the call: when the entry price is zero the
  division for \<^verbatim>\<open>pnl_percent\<close> raises after the position has been popped, and
  nothing else has been written.\<close>

definition close_position ::
  "Portfolio \<Rightarrow> string \<Rightarrow> real \<Rightarrow> string \<Rightarrow> nat \<Rightarrow> (error + real) \<times> Portfolio" where
  "close_position p symbol exit_price exit_reason now =
     (case pf_positions p symbol of
        None \<Rightarrow> (Inr 0, p)
      | Some pos \<Rightarrow>
          (let p1 = p\<lparr>pf_positions := (pf_positions p)(symbol := None)\<rparr>;
               pnl = (exit_price - op_entry_price pos) * op_quantity pos
           in if op_entry_price pos = 0 then (Inl ZeroDivisionError, p1)
              else
                (let pnl_percent = (exit_price - op_entry_price pos) / op_entry_price pos;
                     trade = \<lparr> ct_symbol = symbol,
                               ct_entry_price = op_entry_price pos,
                               ct_exit_price = exit_price,
                               ct_quantity = op_quantity pos,
                               ct_pnl = pnl,
                               ct_pnl_percent = pnl_percent,
                               ct_entry_time = op_entry_time pos,
                               ct_exit_time = now,
                               ct_reason = exit_reason \<rparr>;
                     capital = pf_current_capital p1 + pnl
                 in (Inr pnl,
                     p1\<lparr>pf_trades := pf_trades p1 @ [trade],
                        pf_current_capital := capital,
                        pf_equity_curve := pf_equity_curve p1 @ [capital]\<rparr>))))"

section \<open>risk\_management/risk.py: PositionSizer, and utils/helpers.py: kelly\_criterion\<close>

text \<open>\<^verbatim>\<open>PositionSizer.kelly_criterion\<close>: the guard on \<^verbatim>\<open>avg_loss\<close> and
  \<^verbatim>\<open>win_rate\<close> comes first; past it the division by \<^verbatim>\<open>avg_win\<close> is a Python
  float division.\<close>

definition PositionSizer_kelly_criterion :: "real \<Rightarrow> real \<Rightarrow> real \<Rightarrow> real \<Rightarrow> error + real" where
  "PositionSizer_kelly_criterion win_rate avg_win avg_loss kelly_fraction =
     (if avg_loss = 0 \<or> win_rate = 0 then Inr 0
      else if avg_win = 0 then Inl ZeroDivisionError
      else
        (let kelly = (win_rate * avg_win - (1 - win_rate) * avg_loss) / avg_win
         in Inr (max 0 (min (kelly * kelly_fraction) 1))))"

text \<open>The helper of the same name in utils/helpers.py has no safety fraction and no
  clamp, and guards \<^verbatim>\<open>avg_loss\<close> only.\<close>

definition kelly_criterion :: "real \<Rightarrow> real \<Rightarrow> real \<Rightarrow> error + real" where
  "kelly_criterion win_rate avg_win avg_loss =
     (if avg_loss = 0 then Inr 0
      else if avg_win = 0 then Inl ZeroDivisionError
      else Inr ((win_rate * avg_win - (1 - win_rate) * avg_loss) / avg_win))"

section \<open>backtesting/advanced.py: ExecutionMetrics\<close>

record ExecutionMetrics =
  slippage_bps :: real
  commission_pct :: real
  spread_bps :: real

text \<open>The dataclass defaults.\<close>

definition ExecutionMetrics_default :: ExecutionMetrics where
  "ExecutionMetrics_default =
     \<lparr> slippage_bps = 2, commission_pct = 1 / 1000, spread_bps = 3 / 2 \<rparr>"

text \<open>Only the exact string \<^verbatim>\<open>"buy"\<close> selects the first branch; every other direction
  gets the reciprocal, whose division raises when the product is zero.\<close>

definition get_slippage_multiplier :: "ExecutionMetrics \<Rightarrow> string \<Rightarrow> error + real" where
  "get_slippage_multiplier ex direction =
     (let base = 1 + slippage_bps ex / 10000;
          spread = 1 + spread_bps ex / 10000
      in if direction = ''buy'' then Inr (base * spread)
         else if base * spread = 0 then Inl ZeroDivisionError
         else Inr (1 / (base * spread)))"

definition apply_costs :: "ExecutionMetrics \<Rightarrow> real \<Rightarrow> real" where
  "apply_costs ex pnl = pnl * (1 - commission_pct ex)"

text \<open>The realized price of \<^verbatim>\<open>AdvancedBacktester.run\<close>, written there in line as
  \<^verbatim>\<open>current_price * self.execution.get_slippage_multiplier(direction)\<close>.\<close>

definition fill_price :: "ExecutionMetrics \<Rightarrow> real \<Rightarrow> string \<Rightarrow> error + real" where
  "fill_price ex raw_price direction =
     (case get_slippage_multiplier ex direction of
        Inl e \<Rightarrow> Inl e
      | Inr m \<Rightarrow> Inr (raw_price * m))"

section \<open>strategies/base.py: EnsembleStrategy weights\<close>

text \<open>The weights dict maps strategy names to weights. It is an association list in
  insertion order: \<^const>\<open>AList.update\<close> overwrites the value of an existing key in place
  and appends a new key, as a Python dict does. Of a sub-strategy only its name matters
  to the weight bookkeeping.\<close>

record EnsembleStrategy =
  es_sub_strategies :: "string list"
  es_weights :: "(string \<times> real) list"

text \<open>\<^verbatim>\<open>add_strategy\<close>: \<open>None\<close> stands for the omitted weight, which defaults to one over
  the new number of sub-strategies. The weight is stored as given.\<close>

definition add_strategy :: "EnsembleStrategy \<Rightarrow> string \<Rightarrow> real option \<Rightarrow> EnsembleStrategy" where
  "add_strategy e strategy_name weight =
     (let subs = es_sub_strategies e @ [strategy_name];
          w = (case weight of None \<Rightarrow> 1 / real (length subs) | Some x \<Rightarrow> x)
      in e\<lparr>es_sub_strategies := subs,
           es_weights := AList.update strategy_name w (es_weights e)\<rparr>)"

text \<open>\<^verbatim>\<open>set_strategy_weight\<close> stores the weight first and divides afterwards, so a zero
  total raises with the new weight already written and nothing normalized.\<close>

definition set_strategy_weight ::
  "EnsembleStrategy \<Rightarrow> string \<Rightarrow> real \<Rightarrow> (error + unit) \<times> EnsembleStrategy" where
  "set_strategy_weight e strategy_name weight =
     (let e1 = e\<lparr>es_weights := AList.update strategy_name weight (es_weights e)\<rparr>;
          total = sum_list (map snd (es_weights e1))
      in if total = 0 then (Inl ZeroDivisionError, e1)
         else (Inr (), e1\<lparr>es_weights := map (\<lambda>(k, v). (k, v / total)) (es_weights e1)\<rparr>))"

section \<open>utils/helpers.py: metrics\<close>

text \<open>The metric helpers work on pandas objects and divide numpy floats, so a zero
  divisor gives a non-finite float instead of an exception: the result is an
  \<open>npfloat\<close>.\<close>

definition np_divide :: "real \<Rightarrow> real \<Rightarrow> npfloat" where
  "np_divide x y =
     (if y = 0 then (if x = 0 then NaN else if x > 0 then PosInf else NegInf)
      else Finite (x / y))"

text \<open>The arithmetic mean and the sample standard deviation (pandas' default
  \<^verbatim>\<open>ddof=1\<close>) of a series. \<^verbatim>\<open>Series.mean()\<close> is NaN on an empty series and
  \<^verbatim>\<open>Series.std()\<close> is NaN on fewer than two values; \<open>None\<close> is that NaN.\<close>

definition mean_of :: "real list \<Rightarrow> real" where
  "mean_of xs = sum_list xs / real (length xs)"

definition std_of :: "real list \<Rightarrow> real" where
  "std_of xs = sqrt (sum_list (map (\<lambda>x. (x - mean_of xs)\<^sup>2) xs) / real (length xs - 1))"

definition series_mean :: "real list \<Rightarrow> real option" where
  "series_mean xs = (if xs = [] then None else Some (mean_of xs))"

definition series_std :: "real list \<Rightarrow> real option" where
  "series_std xs = (if length xs < 2 then None else Some (std_of xs))"

text \<open>\<^verbatim>\<open>calculate_sharpe_ratio\<close>. \<^verbatim>\<open>risk_free_rate / periods_per_year\<close> divides two
  Python numbers and raises on zero; \<^verbatim>\<open>np.sqrt\<close> of a negative number is NaN; the final
  division is numpy's.\<close>

definition excess_returns :: "real list \<Rightarrow> real \<Rightarrow> int \<Rightarrow> real list" where
  "excess_returns returns risk_free_rate periods_per_year =
     map (\<lambda>r. r - risk_free_rate / real_of_int periods_per_year) returns"

definition calculate_sharpe_ratio :: "real list \<Rightarrow> real \<Rightarrow> int \<Rightarrow> error + npfloat" where
  "calculate_sharpe_ratio returns risk_free_rate periods_per_year =
     (if periods_per_year = 0 then Inl ZeroDivisionError
      else
        (let ex = excess_returns returns risk_free_rate periods_per_year
         in case (series_mean ex, series_std ex) of
              (Some m, Some s) \<Rightarrow>
                if periods_per_year < 0 then Inr NaN
                else Inr (np_divide (sqrt (real_of_int periods_per_year) * m) s)
            | _ \<Rightarrow> Inr NaN))"

text \<open>The Sharpe ratio that \<^verbatim>\<open>AdvancedBacktester.run\<close> computes in line from the bar
  returns of its equity curve: \<^verbatim>\<open>metrics.sharpe_ratio\<close> keeps its default 0.0 unless the
  test \<^verbatim>\<open>returns.std() > 0\<close> succeeds, and a comparison with NaN fails.\<close>

definition advanced_sharpe_ratio :: "real list \<Rightarrow> real" where
  "advanced_sharpe_ratio returns =
     (if length returns > 0 then
        (case (series_mean returns, series_std returns) of
           (Some m, Some s) \<Rightarrow> if s > 0 then sqrt 252 * m / s else 0
         | _ \<Rightarrow> 0)
      else 0)"

text \<open>\<^verbatim>\<open>calculate_profit_factor\<close> on the \<^verbatim>\<open>pnl\<close> column of the trades frame.\<close>

definition calculate_profit_factor :: "real list \<Rightarrow> real" where
  "calculate_profit_factor pnl =
     (let gross_profit = sum_list (filter (\<lambda>x. x > 0) pnl);
          gross_loss = \<bar>sum_list (filter (\<lambda>x. x < 0) pnl)\<bar>
      in if gross_loss > 0 then gross_profit / gross_loss else 0)"

definition calculate_win_rate :: "real list \<Rightarrow> real" where
  "calculate_win_rate pnl =
     (let winning_trades = length (filter (\<lambda>x. x > 0) pnl);
          total_trades = length pnl
      in if total_trades > 0 then real winning_trades / real total_trades else 0)"

section \<open>backtesting/validator.py: walk-forward windows\<close>

text \<open>The \<^verbatim>\<open>while\<close> loop of \<^verbatim>\<open>walk_forward_test\<close> over a frame of \<open>n\<close> rows. Each
  iteration evaluates one window and appends one entry to \<^verbatim>\<open>test_results\<close>; the
  accumulator records the window as the slice bounds \<open>(i, i + train, i + train + test)\<close>.
  With a step that is not positive the loop need not end, so it is a partial function.\<close>

partial_function (option) walk_forward_loop ::
  "int \<Rightarrow> int \<Rightarrow> int \<Rightarrow> int \<Rightarrow> int \<Rightarrow> (int \<times> int \<times> int) list \<Rightarrow> (int \<times> int \<times> int) list option" where
  "walk_forward_loop n train_period test_period step i acc =
     (if i + train_period + test_period < n
      then walk_forward_loop n train_period test_period step (i + step)
             (acc @ [(i, i + train_period, i + train_period + test_period)])
      else Some acc)"

text \<open>\<^verbatim>\<open>walk_forward_test\<close> with its default periods; \<^verbatim>\<open>total_tests\<close> is the length
  of the result.\<close>

definition walk_forward_test :: "nat \<Rightarrow> (int \<times> int \<times> int) list option" where
  "walk_forward_test len_df = walk_forward_loop (int len_df) 252 63 21 0 []"


section \<open>backtesting: the market frame and the signal interface\<close>

text \<open>A frame is the list of its rows in index order. A signal function receives the
  prefix of the frame up to the current bar and returns a signal name and a confidence,
  or raises. The frame's index is taken to be unique (a market series has strictly
  increasing timestamps), so \<^verbatim>\<open>df.index.get_loc\<close> is the row position of a label.

  Inside the simulation loops the close price is a numpy float, so the divisions by a
  price never raise. A zero price would make them non-finite; the real-valued sizes and
  P\&L figures of the model do not describe such a run. No branch of either loop reads
  these figures, except for the win and loss counters.\<close>

record PriceBar =
  bar_timestamp :: nat
  bar_open :: real
  bar_high :: real
  bar_low :: real
  bar_close :: real
  bar_volume :: real

type_synonym DataFrame = "PriceBar list"

type_synonym signal_func = "DataFrame \<Rightarrow> error + (string \<times> real)"

definition get_loc :: "DataFrame \<Rightarrow> nat \<Rightarrow> nat" where
  "get_loc df label = length (takeWhile (\<lambda>b. bar_timestamp b \<noteq> label) df)"

section \<open>backtesting/advanced.py: AdvancedBacktester\<close>

record Trade =
  tr_symbol :: string
  tr_entry_time :: nat
  tr_exit_time :: nat
  tr_entry_price :: real
  tr_exit_price :: real
  tr_position_size :: real
  tr_gross_pnl :: real
  tr_net_pnl :: real
  tr_net_pnl_pct :: real
  tr_commission_paid :: real
  tr_slippage_cost :: real
  tr_holding_bars :: int
  tr_reason :: string
  tr_confidence :: real

record AdvancedBacktester =
  ab_initial_capital :: real
  ab_max_position_pct :: real
  ab_execution :: ExecutionMetrics
  ab_capital :: real
  ab_equity_curve :: "real list"
  ab_trades :: "Trade list"

text \<open>\<^verbatim>\<open>AdvancedBacktester.__init__\<close>; \<open>None\<close> is the omitted execution model.\<close>

definition AdvancedBacktester_init ::
  "real \<Rightarrow> real \<Rightarrow> ExecutionMetrics option \<Rightarrow> AdvancedBacktester" where
  "AdvancedBacktester_init initial_capital max_position_pct execution =
     \<lparr> ab_initial_capital = initial_capital,
       ab_max_position_pct = max_position_pct,
       ab_execution = (case execution of None \<Rightarrow> ExecutionMetrics_default | Some ex \<Rightarrow> ex),
       ab_capital = initial_capital,
       ab_equity_curve = [initial_capital],
       ab_trades = [] \<rparr>"

text \<open>The part of \<^verbatim>\<open>BacktestMetrics\<close> that \<^verbatim>\<open>run\<close> derives from the trades and the
  capital. The return statistics computed afterwards from the equity curve (Sharpe,
  Sortino, drawdown, Calmar) raise nothing and are not part of the record; the Sharpe
  ratio among them is \<^const>\<open>advanced_sharpe_ratio\<close>.\<close>

record BacktestMetrics =
  bm_total_trades :: nat
  bm_winning_trades :: nat
  bm_losing_trades :: nat
  bm_gross_profit :: real
  bm_gross_loss :: real
  bm_net_profit :: real
  bm_win_rate :: real
  bm_profit_factor :: real
  bm_total_return :: npfloat
  bm_starting_capital :: real
  bm_ending_capital :: real
  bm_trades :: "Trade list"
  bm_equity_curve :: "real list"

text \<open>The variables of \<^verbatim>\<open>run\<close> that change from bar to bar. \<^verbatim>\<open>position\<close> is either
  \<^verbatim>\<open>None\<close> or \<^verbatim>\<open>"LONG"\<close>; the entry variables are written at every entry and read
  only while the position is open, so they are kept with the open position.\<close>

record LongPosition =
  lp_entry_price :: real
  lp_entry_time :: nat
  lp_entry_confidence :: real
  lp_position_size :: real

record RunState =
  rs_capital :: real
  rs_equity_curve :: "real list"
  rs_trades :: "Trade list"
  rs_position :: "LongPosition option"
  rs_capital_high :: real
  rs_winning_trades :: nat
  rs_losing_trades :: nat
  rs_gross_profit :: real
  rs_gross_loss :: real
  rs_metrics_trades :: "Trade list"

text \<open>The bookkeeping that follows both closes: the trade joins \<^verbatim>\<open>self.trades\<close> and
  \<^verbatim>\<open>metrics.trades\<close>, the capital takes the net P\&L, and the trade counts as a win
  or as a loss.\<close>

definition book_trade :: "RunState \<Rightarrow> Trade \<Rightarrow> RunState" where
  "book_trade st trade =
     (let st1 = st\<lparr>rs_trades := rs_trades st @ [trade],
                   rs_metrics_trades := rs_metrics_trades st @ [trade],
                   rs_capital := rs_capital st + tr_net_pnl trade\<rparr>
      in if tr_net_pnl trade > 0
         then st1\<lparr>rs_winning_trades := rs_winning_trades st1 + 1,
                  rs_gross_profit := rs_gross_profit st1 + tr_gross_pnl trade\<rparr>
         else st1\<lparr>rs_losing_trades := rs_losing_trades st1 + 1,
                  rs_gross_loss := rs_gross_loss st1 + \<bar>tr_gross_pnl trade\<bar>\<rparr>)"

text \<open>The last statement of the loop body, under the comment
  \<^verbatim>\<open># Update equity curve regardless\<close>.\<close>

definition update_equity :: "RunState \<Rightarrow> real \<Rightarrow> RunState" where
  "update_equity st current_price =
     (case rs_position st of
        None \<Rightarrow> st\<lparr>rs_equity_curve := rs_equity_curve st @ [rs_capital st]\<rparr>
      | Some pos \<Rightarrow>
          (let unrealized = (current_price - lp_entry_price pos) * lp_position_size pos;
               unrealized_equity = rs_capital st + unrealized
           in st\<lparr>rs_equity_curve := rs_equity_curve st @ [unrealized_equity],
                 rs_capital_high := max (rs_capital_high st) unrealized_equity\<rparr>))"

text \<open>The trade record built at a close; the commission is charged on both legs.\<close>

definition make_trade ::
  "AdvancedBacktester \<Rightarrow> string \<Rightarrow> LongPosition \<Rightarrow> nat \<Rightarrow> real \<Rightarrow> int \<Rightarrow> string \<Rightarrow> Trade" where
  "make_trade bt symbol pos exit_time exit_price holding_bars reason =
     (let gross_pnl = (exit_price - lp_entry_price pos) * lp_position_size pos;
          commission = \<bar>lp_entry_price pos * lp_position_size pos\<bar> * commission_pct (ab_execution bt)
                       + \<bar>exit_price * lp_position_size pos\<bar> * commission_pct (ab_execution bt);
          net_pnl = gross_pnl - commission;
          net_pnl_pct = (exit_price - lp_entry_price pos) / lp_entry_price pos
      in \<lparr> tr_symbol = symbol,
           tr_entry_time = lp_entry_time pos,
           tr_exit_time = exit_time,
           tr_entry_price = lp_entry_price pos,
           tr_exit_price = exit_price,
           tr_position_size = lp_position_size pos,
           tr_gross_pnl = gross_pnl,
           tr_net_pnl = net_pnl,
           tr_net_pnl_pct = net_pnl_pct,
           tr_commission_paid = commission,
           tr_slippage_cost = 0,
           tr_holding_bars = holding_bars,
           tr_reason = reason,
           tr_confidence = lp_entry_confidence pos \<rparr>)"

text \<open>One iteration of the main loop, for the bar at row \<open>i\<close>. Whatever the signal
  function raises is caught and replaced by \<^verbatim>\<open>("HOLD", 0.0)\<close>. The source tests
  \<^verbatim>\<open>signal == "BUY" and position is None and confidence > 0.3\<close> and then
  \<^verbatim>\<open>signal == "SELL" and position == "LONG"\<close>; the model splits on the position
  first, which selects the same branch. The exit branch appends the new capital to the
  equity curve, and the bar then ends with \<^const>\<open>update_equity\<close> like every other
  bar.\<close>

definition run_bar ::
  "AdvancedBacktester \<Rightarrow> signal_func \<Rightarrow> string \<Rightarrow> DataFrame \<Rightarrow> RunState \<Rightarrow> nat
     \<Rightarrow> error + RunState" where
  "run_bar bt signal_func symbol df st i =
     (let current_data = take (i + 1) df;
          current_price = bar_close (df ! i);
          current_time = bar_timestamp (df ! i);
          (signal, confidence) =
            (case signal_func current_data of
               Inl e \<Rightarrow> (''HOLD'', 0)
             | Inr sc \<Rightarrow> sc)
      in case rs_position st of
           None \<Rightarrow>
             if signal = ''BUY'' \<and> confidence > 3 / 10 then
               (case fill_price (ab_execution bt) current_price ''buy'' of
                  Inl e \<Rightarrow> Inl e
                | Inr entry_price \<Rightarrow>
                    Inr (update_equity
                          (st\<lparr>rs_position := Some
                                \<lparr> lp_entry_price = entry_price,
                                  lp_entry_time = current_time,
                                  lp_entry_confidence = confidence,
                                  lp_position_size =
                                    (rs_capital st * ab_max_position_pct bt) / current_price \<rparr>\<rparr>)
                          current_price))
             else Inr (update_equity st current_price)
         | Some pos \<Rightarrow>
             if signal = ''SELL'' then
               (case fill_price (ab_execution bt) current_price ''sell'' of
                  Inl e \<Rightarrow> Inl e
                | Inr exit_price \<Rightarrow>
                    (let holding_bars = int i - int (get_loc df (lp_entry_time pos));
                         trade = make_trade bt symbol pos current_time exit_price
                                   holding_bars ''signal'';
                         st1 = book_trade st trade;
                         st2 = st1\<lparr>rs_equity_curve := rs_equity_curve st1 @ [rs_capital st1],
                                   rs_position := None\<rparr>
                     in Inr (update_equity st2 current_price)))
             else Inr (update_equity st current_price))"

fun run_loop ::
  "AdvancedBacktester \<Rightarrow> signal_func \<Rightarrow> string \<Rightarrow> DataFrame \<Rightarrow> nat list \<Rightarrow> RunState
     \<Rightarrow> error + RunState" where
  "run_loop bt signal_func symbol df [] st = Inr st"
| "run_loop bt signal_func symbol df (i # rest) st =
     (case run_bar bt signal_func symbol df st i of
        Inl e \<Rightarrow> Inl e
      | Inr st' \<Rightarrow> run_loop bt signal_func symbol df rest st')"

text \<open>The close of a position still open after the last bar, at the raw last close. It
  books the trade and appends nothing to the equity curve.\<close>

definition close_open_position ::
  "AdvancedBacktester \<Rightarrow> string \<Rightarrow> DataFrame \<Rightarrow> RunState \<Rightarrow> error + RunState" where
  "close_open_position bt symbol df st =
     (case rs_position st of
        None \<Rightarrow> Inr st
      | Some pos \<Rightarrow>
          (case df of
             [] \<Rightarrow> Inl IndexError
           | _ # _ \<Rightarrow>
               (let exit_price = bar_close (last df);
                    holding_bars = int (length df) - int (get_loc df (lp_entry_time pos));
                    trade = make_trade bt symbol pos (bar_timestamp (last df)) exit_price
                              holding_bars ''end_of_data''
                in Inr (book_trade st trade))))"

text \<open>The trade-derived part of the final metrics. \<^verbatim>\<open>total_trades\<close> counts
  \<^verbatim>\<open>self.trades\<close>, which outlives a run, while the win and loss counters are those of
  this run.\<close>

definition final_metrics :: "AdvancedBacktester \<Rightarrow> RunState \<Rightarrow> BacktestMetrics" where
  "final_metrics bt st =
     (let total_trades = length (rs_trades st)
      in \<lparr> bm_total_trades = total_trades,
           bm_winning_trades = rs_winning_trades st,
           bm_losing_trades = rs_losing_trades st,
           bm_gross_profit = rs_gross_profit st,
           bm_gross_loss = rs_gross_loss st,
           bm_net_profit = rs_capital st - ab_initial_capital bt,
           bm_win_rate =
             (if total_trades > 0 then real (rs_winning_trades st) / real total_trades else 0),
           bm_profit_factor =
             (if total_trades > 0 \<and> rs_gross_loss st > 0
              then rs_gross_profit st / rs_gross_loss st else 0),
           bm_total_return =
             np_divide (rs_capital st - ab_initial_capital bt) (ab_initial_capital bt),
           bm_starting_capital = ab_initial_capital bt,
           bm_ending_capital = rs_capital st,
           bm_trades = rs_metrics_trades st,
           bm_equity_curve = rs_equity_curve st \<rparr>)"

text \<open>\<^verbatim>\<open>AdvancedBacktester.run\<close>. The loop visits the rows \<open>warmup_periods\<close> to
  \<open>len(df) - 1\<close>. The capital is a Python number until the first trade adds a numpy
  float to it, so with no trade on the object the division for \<^verbatim>\<open>total_return\<close> is a
  Python division and raises when the initial capital is zero.\<close>

definition run ::
  "AdvancedBacktester \<Rightarrow> DataFrame \<Rightarrow> signal_func \<Rightarrow> string \<Rightarrow> nat
     \<Rightarrow> error + (AdvancedBacktester \<times> BacktestMetrics)" where
  "run bt df signal_func symbol warmup_periods =
     (let st0 = \<lparr> rs_capital = ab_capital bt,
                  rs_equity_curve = ab_equity_curve bt,
                  rs_trades = ab_trades bt,
                  rs_position = None,
                  rs_capital_high = ab_initial_capital bt,
                  rs_winning_trades = 0,
                  rs_losing_trades = 0,
                  rs_gross_profit = 0,
                  rs_gross_loss = 0,
                  rs_metrics_trades = [] \<rparr>
      in case run_loop bt signal_func symbol df [warmup_periods..<length df] st0 of
           Inl e \<Rightarrow> Inl e
         | Inr st1 \<Rightarrow>
             (case close_open_position bt symbol df st1 of
                Inl e \<Rightarrow> Inl e
              | Inr st2 \<Rightarrow>
                  if rs_trades st2 = [] \<and> ab_initial_capital bt = 0 then Inl ZeroDivisionError
                  else Inr (bt\<lparr>ab_capital := rs_capital st2,
                               ab_equity_curve := rs_equity_curve st2,
                               ab_trades := rs_trades st2\<rparr>,
                            final_metrics bt st2)))"

section \<open>backtesting/engine.py: BacktestEngine\<close>

record EngineTrade =
  et_symbol :: string
  et_entry_time :: nat
  et_exit_time :: nat
  et_entry_price :: real
  et_exit_price :: real
  et_position_size :: real
  et_pnl :: real
  et_pnl_percent :: real
  et_reason :: string

text \<open>The engine object without its strategy, which the model passes to
  \<^verbatim>\<open>run_backtest\<close> as the function \<^verbatim>\<open>self.strategy.generate_signal\<close>.\<close>

record BacktestEngine =
  be_initial_capital :: real
  be_commission :: real
  be_slippage_pips :: real
  be_trades :: "EngineTrade list"
  be_equity_curve :: "real list"
  be_current_capital :: real

definition BacktestEngine_init :: "real \<Rightarrow> real \<Rightarrow> real \<Rightarrow> BacktestEngine" where
  "BacktestEngine_init initial_capital commission slippage_pips =
     \<lparr> be_initial_capital = initial_capital,
       be_commission = commission,
       be_slippage_pips = slippage_pips,
       be_trades = [],
       be_equity_curve = [initial_capital],
       be_current_capital = initial_capital \<rparr>"

record EnginePosition =
  ep_entry_price :: real
  ep_entry_time :: nat
  ep_position_size :: real

text \<open>A closed trade of the engine: the commission is a fixed fraction of the initial
  capital, and the equity curve grows by the capital after the trade.\<close>

definition engine_close ::
  "BacktestEngine \<Rightarrow> string \<Rightarrow> EnginePosition \<Rightarrow> nat \<Rightarrow> real \<Rightarrow> string \<Rightarrow> BacktestEngine" where
  "engine_close e symbol pos exit_time exit_price reason =
     (let pnl = (exit_price - ep_entry_price pos) * ep_position_size pos
                - be_initial_capital e * be_commission e;
          pnl_percent = (exit_price - ep_entry_price pos) / ep_entry_price pos;
          trade = \<lparr> et_symbol = symbol,
                    et_entry_time = ep_entry_time pos,
                    et_exit_time = exit_time,
                    et_entry_price = ep_entry_price pos,
                    et_exit_price = exit_price,
                    et_position_size = ep_position_size pos,
                    et_pnl = pnl,
                    et_pnl_percent = pnl_percent,
                    et_reason = reason \<rparr>;
          capital = be_current_capital e + pnl
      in e\<lparr>be_trades := be_trades e @ [trade],
           be_current_capital := capital,
           be_equity_curve := be_equity_curve e @ [capital]\<rparr>)"

text \<open>One iteration of the loop of \<^verbatim>\<open>run_backtest\<close>. The call of the strategy is not
  guarded, so what it raises leaves the loop. The state is the engine and the local
  \<^verbatim>\<open>position\<close> with its entry variables.\<close>

definition run_backtest_bar ::
  "signal_func \<Rightarrow> string \<Rightarrow> DataFrame \<Rightarrow> BacktestEngine \<times> EnginePosition option \<Rightarrow> nat
     \<Rightarrow> error + BacktestEngine \<times> EnginePosition option" where
  "run_backtest_bar strategy symbol df st i =
     (let (e, position) = st;
          current_data = take (i + 1) df;
          current_price = bar_close (df ! i);
          current_time = bar_timestamp (df ! i)
      in case strategy current_data of
           Inl err \<Rightarrow> Inl err
         | Inr (signal, confidence) \<Rightarrow>
             (case position of
                None \<Rightarrow>
                  if signal = ''BUY'' \<and> confidence > 1 / 2 then
                    Inr (e, Some \<lparr> ep_entry_price =
                                     current_price * (1 + be_slippage_pips e * (1 / 10000)),
                                   ep_entry_time = current_time,
                                   ep_position_size =
                                     be_initial_capital e * (5 / 100) / current_price \<rparr>)
                  else Inr (e, None)
              | Some pos \<Rightarrow>
                  if signal = ''SELL'' then
                    Inr (engine_close e symbol pos current_time
                           (current_price * (1 - be_slippage_pips e * (1 / 10000))) ''signal'',
                         None)
                  else Inr (e, Some pos)))"

fun run_backtest_loop ::
  "signal_func \<Rightarrow> string \<Rightarrow> DataFrame \<Rightarrow> nat list \<Rightarrow> BacktestEngine \<times> EnginePosition option
     \<Rightarrow> error + BacktestEngine \<times> EnginePosition option" where
  "run_backtest_loop strategy symbol df [] st = Inr st"
| "run_backtest_loop strategy symbol df (i # rest) st =
     (case run_backtest_bar strategy symbol df st i of
        Inl err \<Rightarrow> Inl err
      | Inr st' \<Rightarrow> run_backtest_loop strategy symbol df rest st')"

text \<open>\<^verbatim>\<open>run_backtest\<close>: the loop over the rows from \<open>start_idx\<close>, the close of a position
  left open (at the raw last close), and the two places where \<^verbatim>\<open>_calculate_results\<close>
  can raise. It builds a series from the equity curve over the first rows of the frame's
  index, which fails when the curve is longer than the frame; and it divides by the
  initial capital, a Python division as long as no trade has touched the capital. The
  result is the engine after the run.\<close>

definition run_backtest ::
  "BacktestEngine \<Rightarrow> signal_func \<Rightarrow> DataFrame \<Rightarrow> string \<Rightarrow> nat \<Rightarrow> error + BacktestEngine" where
  "run_backtest e strategy df symbol start_idx =
     (case run_backtest_loop strategy symbol df [start_idx..<length df] (e, None) of
        Inl err \<Rightarrow> Inl err
      | Inr (e1, position) \<Rightarrow>
          (let closed =
                 (case position of
                    None \<Rightarrow> Inr e1
                  | Some pos \<Rightarrow>
                      (case df of
                         [] \<Rightarrow> Inl IndexError
                       | _ # _ \<Rightarrow>
                           Inr (engine_close e1 symbol pos (bar_timestamp (last df))
                                  (bar_close (last df)) ''end_of_data'')))
           in case closed of
                Inl err \<Rightarrow> Inl err
              | Inr e2 \<Rightarrow>
                  if length (be_equity_curve e2) > length df then Inl ValueError
                  else if be_trades e2 = [] \<and> be_initial_capital e2 = 0
                       then Inl ZeroDivisionError
                  else Inr e2))"

section \<open>Inputs used by the concrete evaluations\<close>

text \<open>A bar whose four prices are all \<open>c\<close>, and four signal functions: one that buys on
  the first bar it sees and sells on every later one, one that buys on the first bar and
  holds afterwards, one that always holds and one that fails on every call.\<close>

definition flat_bar :: "nat \<Rightarrow> real \<Rightarrow> PriceBar" where
  "flat_bar t c = \<lparr> bar_timestamp = t, bar_open = c, bar_high = c, bar_low = c,
                    bar_close = c, bar_volume = 0 \<rparr>"

definition buy_then_sell :: signal_func where
  "buy_then_sell d = (if length d = 1 then Inr (''BUY'', 9 / 10) else Inr (''SELL'', 9 / 10))"

definition buy_once :: signal_func where
  "buy_once d = (if length d = 1 then Inr (''BUY'', 9 / 10) else Inr (''HOLD'', 0))"

definition always_hold :: signal_func where
  "always_hold d = Inr (''HOLD'', 0)"

definition always_raising :: signal_func where
  "always_raising d = Inl StrategyError"

text \<open>The number of trades in a list that were closed by a SELL signal.\<close>

definition count_signal :: "Trade list \<Rightarrow> nat" where
  "count_signal ts = length (filter (\<lambda>t. tr_reason t = ''signal'') ts)"

section \<open>Properties of the risk monitor and the portfolio\<close>

text \<open>The peak never falls below 1.0, whatever floats arrive.\<close>

lemma update_capital_peak_ge_one:
  "fl_ge (rm_peak_capital m) (Finite 1) \<Longrightarrow>
   fl_ge (rm_peak_capital (update_capital m c)) (Finite 1)"
  by (cases c; cases "rm_peak_capital m") (auto simp: update_capital_def Let_def)

lemma foldl_update_capital_peak_ge_one:
  "fl_ge (rm_peak_capital m) (Finite 1) \<Longrightarrow>
   fl_ge (rm_peak_capital (foldl update_capital m cs)) (Finite 1)"
  by (induction cs arbitrary: m) (simp_all add: update_capital_peak_ge_one)

text \<open>With finite capitals the peak and the current capital stay finite, the peak at
  least 1.0 and at least the current capital.\<close>

lemma update_capital_finite_peak_state:
  "finite_peak_state m \<Longrightarrow> is_finite c \<Longrightarrow> finite_peak_state (update_capital m c)"
  by (cases c; cases "rm_peak_capital m"; cases "rm_current_capital m")
     (auto simp: finite_peak_state_def update_capital_def Let_def)

lemma foldl_update_capital_finite_peak_state:
  "finite_peak_state m \<Longrightarrow> list_all is_finite cs \<Longrightarrow>
   finite_peak_state (foldl update_capital m cs)"
  by (induction cs arbitrary: m) (simp_all add: update_capital_finite_peak_state)

lemma finite_peak_state_drawdown:
  assumes "finite_peak_state m"
  shows "fl_ge (rm_peak_capital m) (rm_current_capital m)
         \<and> (case get_current_drawdown m of Inl e \<Rightarrow> False | Inr d \<Rightarrow> fl_ge d (Finite 0))"
proof -
  from assms obtain p c where pc: "rm_peak_capital m = Finite p" "rm_current_capital m = Finite c"
    and le: "c \<le> p" "1 \<le> p"
    by (cases "rm_peak_capital m"; cases "rm_current_capital m")
       (auto simp: finite_peak_state_def)
  from le have "0 \<le> (p - c) / p" by simp
  with pc le show ?thesis
    by (simp add: get_current_drawdown_def)
qed

text \<open>
  Claim C10, as stated, on two sequences of one call each, from a freshly built monitor.
  After \<^verbatim>\<open>update_capital(nan)\<close> the current capital is NaN and the peak is still 1.0:
  the peak is not greater than or equal to the current capital, and the drawdown is NaN,
  which is not non-negative. After \<^verbatim>\<open>update_capital(inf)\<close> peak and current capital are
  both infinite and the drawdown is again NaN.
\<close>

theorem risk_monitor_nan_breaks_invariant:
  "\<not> fl_ge (rm_peak_capital (foldl update_capital
              (RiskMonitor_init (Finite (2 / 10)) (Finite (5 / 100)) (Finite (5 / 100))) [NaN]))
            (rm_current_capital (foldl update_capital
              (RiskMonitor_init (Finite (2 / 10)) (Finite (5 / 100)) (Finite (5 / 100))) [NaN]))
   \<and> get_current_drawdown (foldl update_capital
        (RiskMonitor_init (Finite (2 / 10)) (Finite (5 / 100)) (Finite (5 / 100))) [NaN])
       = Inr NaN
   \<and> get_current_drawdown (foldl update_capital
        (RiskMonitor_init (Finite (2 / 10)) (Finite (5 / 100)) (Finite (5 / 100))) [PosInf])
       = Inr NaN
   \<and> \<not> fl_ge NaN (Finite 0)"
  by (simp add: RiskMonitor_init_def update_capital_def get_current_drawdown_def Let_def)

text \<open>
  Claim C10, amended. A risk monitor is created with peak and current capital 1.0. After
  any sequence of \<^verbatim>\<open>update_capital\<close> calls (the list \<open>cs\<close> of new capitals, applied left to
  right) the recorded peak is at least its initial value 1.0, so it is never 0 and the
  branch guarding the division in \<^verbatim>\<open>get_current_drawdown\<close> is never taken. When every
  capital of the sequence is a finite float, the peak is also greater than or equal to the
  current capital, and \<^verbatim>\<open>get_current_drawdown\<close> returns a non-negative value.
\<close>

theorem risk_monitor_peak_invariant:
  "fl_ge (rm_peak_capital (foldl update_capital (RiskMonitor_init md dl ps) cs)) (Finite 1)
   \<and> rm_peak_capital (foldl update_capital (RiskMonitor_init md dl ps) cs) \<noteq> Finite 0
   \<and> (list_all is_finite cs \<longrightarrow>
        fl_ge (rm_peak_capital (foldl update_capital (RiskMonitor_init md dl ps) cs))
              (rm_current_capital (foldl update_capital (RiskMonitor_init md dl ps) cs))
        \<and> (case get_current_drawdown (foldl update_capital (RiskMonitor_init md dl ps) cs) of
             Inl e \<Rightarrow> False
           | Inr d \<Rightarrow> fl_ge d (Finite 0)))"
proof -
  let ?m = "foldl update_capital (RiskMonitor_init md dl ps) cs"
  have one: "fl_ge (rm_peak_capital ?m) (Finite 1)"
    by (rule foldl_update_capital_peak_ge_one) (simp add: RiskMonitor_init_def)
  then have nz: "rm_peak_capital ?m \<noteq> Finite 0"
    by (cases "rm_peak_capital ?m") auto
  have fin: "list_all is_finite cs \<Longrightarrow> finite_peak_state ?m"
    by (rule foldl_update_capital_finite_peak_state)
       (simp_all add: finite_peak_state_def RiskMonitor_init_def)
  show ?thesis
    using one nz fin finite_peak_state_drawdown [of ?m] by blast
qed

theorem risk_monitor_peak_invariant_witness:
  "list_all is_finite [Finite 100000, Finite 95000]
   \<and> rm_peak_capital (foldl update_capital
        (RiskMonitor_init (Finite (2 / 10)) (Finite (5 / 100)) (Finite (5 / 100)))
        [Finite 100000, Finite 95000]) = Finite 100000
   \<and> rm_current_capital (foldl update_capital
        (RiskMonitor_init (Finite (2 / 10)) (Finite (5 / 100)) (Finite (5 / 100)))
        [Finite 100000, Finite 95000]) = Finite 95000
   \<and> get_current_drawdown (foldl update_capital
        (RiskMonitor_init (Finite (2 / 10)) (Finite (5 / 100)) (Finite (5 / 100)))
        [Finite 100000, Finite 95000]) = Inr (Finite (5 / 100))
   \<and> fl_ge (Finite 100000) (Finite 95000) \<and> fl_ge (Finite (5 / 100)) (Finite 0)"
  using risk_monitor_peak_invariant [of "Finite (2 / 10)" "Finite (5 / 100)" "Finite (5 / 100)"
      "[Finite 100000, Finite 95000]"]
  by (simp add: RiskMonitor_init_def update_capital_def get_current_drawdown_def Let_def)

text \<open>
  Claim C9. When the symbol has no open position, \<^verbatim>\<open>close_position\<close> returns 0.0 and
  the portfolio after the call is the portfolio before it: capital, open positions,
  trades and equity curve are all unchanged.
\<close>

theorem close_position_absent_is_noop:
  "pf_positions p symbol = None \<Longrightarrow>
   close_position p symbol exit_price exit_reason now = (Inr 0, p)"
  by (simp add: close_position_def)

theorem close_position_absent_is_noop_witness:
  "pf_positions (add_position (Portfolio_init 100000) ''EURUSD'' 10 2 1 3 0) ''GBPUSD'' = None
   \<and> close_position (add_position (Portfolio_init 100000) ''EURUSD'' 10 2 1 3 0)
        ''GBPUSD'' 5 ''manual'' 7
      = (Inr 0, add_position (Portfolio_init 100000) ''EURUSD'' 10 2 1 3 0)"
proof -
  have h: "pf_positions (add_position (Portfolio_init 100000) ''EURUSD'' 10 2 1 3 0) ''GBPUSD''
           = None"
    by (simp add: add_position_def Portfolio_init_def)
  show ?thesis
    using h close_position_absent_is_noop [OF h, of 5 "''manual''" 7] by simp
qed

section \<open>Kelly sizing\<close>

text \<open>
  Claim C7, as stated, at its own example: with \<open>win_rate = 0.55\<close>, \<open>avg_win = 1.5\<close>,
  \<open>avg_loss = 1.0\<close> and \<open>kelly_fraction = 0.25\<close> the sizer returns \<open>1/16 = 0.0625\<close>, which
  is what \<open>0.25 \<times> (0.55\<times>1.5 - 0.45\<times>1.0)/1.5\<close> evaluates to, and not \<open>0.1375\<close>.
\<close>

theorem kelly_example_is_one_sixteenth:
  "PositionSizer_kelly_criterion (55 / 100) (3 / 2) 1 (1 / 4) = Inr (1 / 16)
   \<and> PositionSizer_kelly_criterion (55 / 100) (3 / 2) 1 (1 / 4) \<noteq> Inr (1375 / 10000)"
  by (simp add: PositionSizer_kelly_criterion_def Let_def)

text \<open>
  Claim C7, amended. Kelly position sizing returns 0 whenever \<open>avg_loss = 0\<close> or
  \<open>win_rate = 0\<close>; otherwise, for a nonzero \<open>avg_win\<close>, it returns
  \<open>kelly_fraction \<times> (win_rate\<cdot>avg_win - (1 - win_rate)\<cdot>avg_loss)/avg_win\<close> clamped into
  \<open>[0, 1]\<close>; and at the example of the claim the value is \<open>0.0625\<close>.
\<close>

theorem kelly_sizing_value:
  "(avg_loss = 0 \<or> win_rate = 0 \<longrightarrow>
      PositionSizer_kelly_criterion win_rate avg_win avg_loss kelly_fraction = Inr 0)
   \<and> (avg_loss \<noteq> 0 \<and> win_rate \<noteq> 0 \<and> avg_win \<noteq> 0 \<longrightarrow>
      PositionSizer_kelly_criterion win_rate avg_win avg_loss kelly_fraction
        = Inr (max 0 (min (kelly_fraction
                 * ((win_rate * avg_win - (1 - win_rate) * avg_loss) / avg_win)) 1)))
   \<and> PositionSizer_kelly_criterion (55 / 100) (3 / 2) 1 (1 / 4) = Inr (625 / 10000)"
  by (simp add: PositionSizer_kelly_criterion_def Let_def mult.commute)

theorem kelly_sizing_value_witness:
  "PositionSizer_kelly_criterion (1 / 2) 2 0 (1 / 2) = Inr 0
   \<and> PositionSizer_kelly_criterion (1 / 2) 2 1 (1 / 2) = Inr (1 / 8)"
  using kelly_sizing_value [of 0 "1 / 2" 2 "1 / 2"] kelly_sizing_value [of 1 "1 / 2" 2 "1 / 2"]
  by simp

section \<open>Execution model\<close>

text \<open>
  Claim C5, as stated, at the default execution model (2 bps slippage, 1.5 bps spread) and
  a raw price of 100: the SELL fill price is not
  \<open>100 \<times> 1/(1 + 2/10000) \<times> (1 + 1.5/10000)\<close>.
\<close>

theorem fill_price_sell_inverts_spread:
  "fill_price ExecutionMetrics_default 100 ''sell''
   \<noteq> Inr (100 * (1 / (1 + slippage_bps ExecutionMetrics_default / 10000))
            * (1 + spread_bps ExecutionMetrics_default / 10000))"
  by (simp add: fill_price_def get_slippage_multiplier_def ExecutionMetrics_default_def Let_def)

text \<open>
  Claim C5, amended. For every raw price the BUY fill price is
  \<open>raw \<times> (1 + slippage_bps/10000) \<times> (1 + spread_bps/10000)\<close>, and the SELL fill price is the
  raw price times the reciprocal of that whole product, so the spread multiplier is
  inverted together with the slippage multiplier (the product must be nonzero for the
  reciprocal to exist).
\<close>

theorem fill_price_buy_and_sell:
  "fill_price ex raw ''buy''
     = Inr (raw * ((1 + slippage_bps ex / 10000) * (1 + spread_bps ex / 10000)))
   \<and> ((1 + slippage_bps ex / 10000) * (1 + spread_bps ex / 10000) \<noteq> 0 \<longrightarrow>
        fill_price ex raw ''sell''
          = Inr (raw * (1 / ((1 + slippage_bps ex / 10000) * (1 + spread_bps ex / 10000)))))"
  by (simp add: fill_price_def get_slippage_multiplier_def Let_def)

theorem fill_price_buy_and_sell_witness:
  "(1 + slippage_bps ExecutionMetrics_default / 10000)
     * (1 + spread_bps ExecutionMetrics_default / 10000) \<noteq> 0
   \<and> fill_price ExecutionMetrics_default 100 ''sell''
       = Inr (100 * (1 / ((1 + 2 / 10000) * (1 + (3 / 2) / 10000))))"
  using fill_price_buy_and_sell [of ExecutionMetrics_default 100]
  by (simp add: ExecutionMetrics_default_def)

section \<open>Ensemble weights\<close>

lemma sum_list_scaled_weights:
  "sum_list (map snd (map (\<lambda>(k, v). (k, v / t)) ws)) = sum_list (map snd ws) / (t::real)"
  by (induction ws) (auto simp: add_divide_distrib)

text \<open>
  Claim C8, as stated, on an ensemble whose only weight is \<open>a \<mapsto> 0.5\<close>: setting the weight
  of \<open>b\<close> to \<open>-0.5\<close> makes the total zero, the normalizing division raises, and the stored
  weights \<open>0.5\<close> and \<open>-0.5\<close> sum to 0. Adding a strategy to an ensemble with the single
  weight \<open>a \<mapsto> 1\<close> stores the default weight \<open>1/2\<close> beside it, and the weights sum to 1.5.
\<close>

theorem set_strategy_weight_zero_total:
  "fst (set_strategy_weight \<lparr>es_sub_strategies = [''a''], es_weights = [(''a'', 1 / 2)]\<rparr>
          ''b'' (- 1 / 2)) = Inl ZeroDivisionError
   \<and> sum_list (map snd (es_weights (snd (set_strategy_weight
          \<lparr>es_sub_strategies = [''a''], es_weights = [(''a'', 1 / 2)]\<rparr> ''b'' (- 1 / 2))))) = 0
   \<and> sum_list (map snd (es_weights (add_strategy
          \<lparr>es_sub_strategies = [''a''], es_weights = [(''a'', 1)]\<rparr> ''b'' None))) = 3 / 2"
  by (simp add: set_strategy_weight_def add_strategy_def Let_def)

text \<open>
  Claim C8, amended. For every ensemble and every \<^verbatim>\<open>set_strategy_weight\<close> call after
  which the stored weights have a nonzero total, the call returns normally and all
  stored weights have been divided by that total, so they sum to 1.0.
\<close>

theorem set_strategy_weight_normalizes:
  "sum_list (map snd (AList.update strategy_name weight (es_weights e))) \<noteq> 0 \<Longrightarrow>
   fst (set_strategy_weight e strategy_name weight) = Inr ()
   \<and> sum_list (map snd (es_weights (snd (set_strategy_weight e strategy_name weight)))) = 1"
  by (simp add: set_strategy_weight_def Let_def sum_list_scaled_weights del: map_map)

theorem set_strategy_weight_normalizes_witness:
  "sum_list (map snd (AList.update ''b'' 3
      (es_weights \<lparr>es_sub_strategies = [''a'', ''b''],
                   es_weights = [(''a'', 1 / 2), (''b'', 1 / 2)]\<rparr>))) \<noteq> 0
   \<and> es_weights (snd (set_strategy_weight
        \<lparr>es_sub_strategies = [''a'', ''b''], es_weights = [(''a'', 1 / 2), (''b'', 1 / 2)]\<rparr>
        ''b'' 3)) = [(''a'', 1 / 7), (''b'', 6 / 7)]
   \<and> sum_list (map snd (es_weights (snd (set_strategy_weight
        \<lparr>es_sub_strategies = [''a'', ''b''], es_weights = [(''a'', 1 / 2), (''b'', 1 / 2)]\<rparr>
        ''b'' 3)))) = 1"
proof -
  let ?e = "\<lparr>es_sub_strategies = [''a'', ''b''], es_weights = [(''a'', 1 / 2), (''b'', 1 / 2)]\<rparr>"
  have h: "sum_list (map snd (AList.update ''b'' 3 (es_weights ?e))) \<noteq> 0"
    by simp
  have w: "es_weights (snd (set_strategy_weight ?e ''b'' 3)) = [(''a'', 1 / 7), (''b'', 6 / 7)]"
    by (simp add: set_strategy_weight_def Let_def)
  show ?thesis
    using h w set_strategy_weight_normalizes [OF h] by simp
qed

section \<open>Profit factor\<close>

lemma profit_factor_with_losses:
  "0 < \<bar>sum_list (filter (\<lambda>x. x < 0) pnl)\<bar> \<Longrightarrow>
   calculate_profit_factor pnl
     = sum_list (filter (\<lambda>x. x > 0) pnl) / \<bar>sum_list (filter (\<lambda>x. x < 0) pnl)\<bar>"
  by (simp add: calculate_profit_factor_def Let_def)

lemma profit_factor_example: "calculate_profit_factor [100, 50, - 30, - 20] = 3"
  by (simp add: calculate_profit_factor_def Let_def)

text \<open>
  Claim C4. The quotient of gains and losses is what the code computes when there are
  losses (\<open>profit_factor_with_losses\<close>, and 3.0 on the trades of the claim). With gains and
  no losses the claim asks for an unbounded value; the code returns 0.0: on the trades
  \<open>[+100, +50, +75]\<close> the helper gives 0, and so does the profit factor of the metrics
  of a run whose gross loss is zero.
\<close>

theorem profit_factor_no_losses_is_zero:
  "calculate_profit_factor [100, 50, 75] = 0"
  by (simp add: calculate_profit_factor_def Let_def)

section \<open>Walk-forward windows\<close>

lemma div_shift: "0 < (st::int) \<Longrightarrow> (x - st) div st = x div st - 1"
proof -
  assume "0 < st"
  then have "(x - st + st) div st = (x - st) div st + 1"
    by (simp only: div_add_self2 [of st "x - st"])
  then show ?thesis by simp
qed

lemma window_count_done:
  "0 < (st::int) \<Longrightarrow> d \<le> 0 \<Longrightarrow> nat ((d - 1) div st + 1) = 0"
proof -
  assume a: "0 < st" "d \<le> 0"
  then have "(d - 1) div st < 0"
    by (simp add: pos_imp_zdiv_neg_iff)
  then show ?thesis by simp
qed

lemma window_count_step:
  "0 < (st::int) \<Longrightarrow> 0 < d \<Longrightarrow>
   nat ((d - 1) div st + 1) = Suc (nat ((d - st - 1) div st + 1))"
proof -
  assume a: "0 < st" "0 < d"
  have "d - st - 1 = (d - 1) - st" by simp
  then have e: "(d - st - 1) div st = (d - 1) div st - 1"
    by (simp only: div_shift [OF a(1)])
  have "0 \<le> (d - 1) div st"
    using a by (simp add: pos_imp_zdiv_nonneg_iff)
  then show ?thesis using e by simp
qed

text \<open>With a positive step the loop ends, and it adds one window for every start
  \<open>i, i + step, \<dots>\<close> that leaves the train and the test period strictly inside the frame.\<close>

lemma walk_forward_loop_length:
  "0 < st \<Longrightarrow>
   map_option length (walk_forward_loop n tr te st i acc)
     = Some (length acc + nat ((n - (i + tr + te) - 1) div st + 1))"
proof (induction "nat (n - (i + tr + te))" arbitrary: i acc rule: less_induct)
  case less
  show ?case
  proof (cases "i + tr + te < n")
    case True
    let ?acc = "acc @ [(i, i + tr, i + tr + te)]"
    have m: "nat (n - (i + st + tr + te)) < nat (n - (i + tr + te))"
      using True less.prems by linarith
    have ih: "map_option length (walk_forward_loop n tr te st (i + st) ?acc)
      = Some (length ?acc + nat ((n - (i + st + tr + te) - 1) div st + 1))"
      by (rule less.hyps [OF m less.prems])
    have u: "walk_forward_loop n tr te st i acc = walk_forward_loop n tr te st (i + st) ?acc"
      using True by (subst walk_forward_loop.simps) simp
    have r: "n - (i + st + tr + te) - 1 = n - (i + tr + te) - st - 1" by simp
    have c: "nat ((n - (i + tr + te) - 1) div st + 1)
             = Suc (nat ((n - (i + st + tr + te) - 1) div st + 1))"
      unfolding r using True less.prems by (intro window_count_step) simp_all
    show ?thesis unfolding u ih c by simp
  next
    case False
    have u: "walk_forward_loop n tr te st i acc = Some acc"
      using False by (subst walk_forward_loop.simps) simp
    have c: "nat ((n - (i + tr + te) - 1) div st + 1) = 0"
      using False less.prems by (intro window_count_done) simp_all
    show ?thesis unfolding u c by simp
  qed
qed

text \<open>
  Claim C6, as stated, on a series of 336 rows: \<open>floor((336 - 252 - 63)/21) + 1 = 2\<close>, but
  the loop evaluates one window. The second start, 21, gives \<open>21 + 252 + 63 = 336\<close>, which
  is not strictly below the length.
\<close>

theorem walk_forward_336_one_window:
  "map_option length (walk_forward_test 336) = Some 1
   \<and> nat ((int 336 - 252 - 63) div 21 + 1) = 2"
  by (simp add: walk_forward_test_def walk_forward_loop.simps)

text \<open>
  Claim C6, amended. Walk-forward analysis over a series of length \<open>L\<close> with the default
  periods (train 252, test 63, step 21) ends and evaluates exactly
  \<open>floor((L - 252 - 63 - 1)/21) + 1\<close> windows, and 0 windows when that quantity is
  negative: a window is evaluated only while \<open>i + 252 + 63 < L\<close> holds strictly.
\<close>

theorem walk_forward_window_count:
  "map_option length (walk_forward_test L) = Some (nat ((int L - 252 - 63 - 1) div 21 + 1))"
  using walk_forward_loop_length [where st = 21 and n = "int L" and tr = 252 and te = 63
      and i = 0 and acc = "[]"]
  by (simp add: walk_forward_test_def)

section \<open>Sharpe ratio\<close>

text \<open>
  Claim C3, as stated, on the two returns \<open>[0.01, 0.01]\<close>, whose excess returns have
  standard deviation zero: \<^verbatim>\<open>calculate_sharpe_ratio\<close> (risk-free rate 0.02, 252 periods)
  returns positive infinity, and the Sharpe ratio of \<^verbatim>\<open>AdvancedBacktester.run\<close> is 0.
  Neither signals an error.
\<close>

theorem sharpe_zero_std_signals_nothing:
  "calculate_sharpe_ratio [1 / 100, 1 / 100] (2 / 100) 252 = Inr PosInf
   \<and> advanced_sharpe_ratio [1 / 100, 1 / 100] = 0"
  by (simp add: calculate_sharpe_ratio_def advanced_sharpe_ratio_def excess_returns_def
      series_mean_def series_std_def mean_of_def std_of_def np_divide_def Let_def)

text \<open>
  Claim C3, amended. With at least two returns, a positive number of periods and a
  nonzero standard deviation of the excess returns, \<^verbatim>\<open>calculate_sharpe_ratio\<close> returns
  \<open>sqrt(periods_per_year) \<times> mean(excess) / std(excess)\<close>, the standard deviation being
  the sample one. When that standard deviation is zero it signals no error and returns
  a non-finite float. The Sharpe ratio computed by \<^verbatim>\<open>AdvancedBacktester.run\<close> from its
  bar returns is \<open>sqrt(252) \<times> mean / std\<close> when there are at least two returns with a
  positive standard deviation, and is 0.0 when the standard deviation is zero or there
  are fewer than two returns.
\<close>

theorem sharpe_ratio_value_and_degenerate:
  "(0 < ppy \<and> 2 \<le> length returns \<and> std_of (excess_returns returns rf ppy) \<noteq> 0 \<longrightarrow>
      calculate_sharpe_ratio returns rf ppy
        = Inr (Finite (sqrt (real_of_int ppy) * mean_of (excess_returns returns rf ppy)
                        / std_of (excess_returns returns rf ppy))))
   \<and> (0 < ppy \<and> 2 \<le> length returns \<and> std_of (excess_returns returns rf ppy) = 0 \<longrightarrow>
      calculate_sharpe_ratio returns rf ppy \<in> {Inr NaN, Inr PosInf, Inr NegInf})
   \<and> (2 \<le> length returns \<and> 0 < std_of returns \<longrightarrow>
      advanced_sharpe_ratio returns = sqrt 252 * mean_of returns / std_of returns)
   \<and> (length returns < 2 \<or> std_of returns = 0 \<longrightarrow> advanced_sharpe_ratio returns = 0)"
proof -
  have len: "length (excess_returns returns rf ppy) = length returns"
    by (simp add: excess_returns_def)
  have a: "0 < ppy \<Longrightarrow> 2 \<le> length returns \<Longrightarrow>
      calculate_sharpe_ratio returns rf ppy
        = Inr (np_divide (sqrt (real_of_int ppy) * mean_of (excess_returns returns rf ppy))
                 (std_of (excess_returns returns rf ppy)))"
    using len by (auto simp: calculate_sharpe_ratio_def Let_def series_mean_def series_std_def)
  have b: "2 \<le> length returns \<Longrightarrow>
      advanced_sharpe_ratio returns
        = (if std_of returns > 0 then sqrt 252 * mean_of returns / std_of returns else 0)"
    by (auto simp: advanced_sharpe_ratio_def series_mean_def series_std_def)
  have c: "length returns < 2 \<Longrightarrow> advanced_sharpe_ratio returns = 0"
    by (auto simp: advanced_sharpe_ratio_def series_mean_def series_std_def)
  show ?thesis
    using a b c by (cases "2 \<le> length returns") (auto simp: np_divide_def)
qed

theorem sharpe_ratio_value_and_degenerate_witness:
  "calculate_sharpe_ratio [0, 2] 0 4 = Inr (Finite (2 / sqrt 2))
   \<and> calculate_sharpe_ratio [1, 1] 0 4 \<in> {Inr NaN, Inr PosInf, Inr NegInf}
   \<and> advanced_sharpe_ratio [0, 2] = sqrt 252 / sqrt 2
   \<and> advanced_sharpe_ratio [1, 1] = 0"
proof -
  have e: "excess_returns [0, 2] 0 4 = [0, 2]" "excess_returns [1, 1] 0 4 = [1, 1]"
    by (simp_all add: excess_returns_def)
  have m: "mean_of [0, 2] = 1" by (simp add: mean_of_def)
  have s1: "std_of [0, 2] = sqrt 2" by (simp add: std_of_def mean_of_def)
  have s2: "std_of [1, 1] = 0" by (simp add: std_of_def mean_of_def)
  show ?thesis
    using sharpe_ratio_value_and_degenerate [of 4 "[0, 2]" 0]
      sharpe_ratio_value_and_degenerate [of 4 "[1, 1]" 0]
    by (simp add: e m s1 s2)
qed

section \<open>The equity curve of a run\<close>

lemma update_equity_fields:
  "length (rs_equity_curve (update_equity st p)) = Suc (length (rs_equity_curve st))"
  "rs_metrics_trades (update_equity st p) = rs_metrics_trades st"
  "rs_trades (update_equity st p) = rs_trades st"
  "rs_capital (update_equity st p) = rs_capital st"
  "rs_position (update_equity st p) = rs_position st"
  by (simp_all add: update_equity_def Let_def split: option.splits)

lemma book_trade_fields:
  "rs_equity_curve (book_trade st t) = rs_equity_curve st"
  "rs_metrics_trades (book_trade st t) = rs_metrics_trades st @ [t]"
  "rs_trades (book_trade st t) = rs_trades st @ [t]"
  "rs_position (book_trade st t) = rs_position st"
  by (simp_all add: book_trade_def Let_def)

lemma make_trade_reason: "tr_reason (make_trade bt symbol pos t p h r) = r"
  by (simp add: make_trade_def Let_def)

text \<open>Every bar of the advanced run appends one value, and a bar that closes a position
  on a SELL signal is the only kind that appends more.\<close>

lemma run_bar_length:
  assumes "run_bar bt f symbol df st i = Inr st'"
  shows "length (rs_equity_curve st') + count_signal (rs_metrics_trades st)
         = Suc (length (rs_equity_curve st)) + count_signal (rs_metrics_trades st')"
  using assms
  by (auto simp: run_bar_def Let_def update_equity_fields book_trade_fields make_trade_reason
      count_signal_def split: option.splits sum.splits if_splits prod.splits)

lemma run_loop_length:
  "run_loop bt f symbol df is st = Inr st' \<Longrightarrow>
   length (rs_equity_curve st') + count_signal (rs_metrics_trades st)
     = length (rs_equity_curve st) + length is + count_signal (rs_metrics_trades st')"
proof (induction "is" arbitrary: st)
  case Nil
  then show ?case by simp
next
  case (Cons i rest)
  then obtain st1 where b: "run_bar bt f symbol df st i = Inr st1"
    and l: "run_loop bt f symbol df rest st1 = Inr st'"
    by (auto split: sum.splits)
  from run_bar_length [OF b] Cons.IH [OF l] show ?case by simp
qed

lemma close_open_position_length:
  "close_open_position bt symbol df st = Inr st' \<Longrightarrow>
   rs_equity_curve st' = rs_equity_curve st
   \<and> count_signal (rs_metrics_trades st') = count_signal (rs_metrics_trades st)"
  by (auto simp: close_open_position_def Let_def book_trade_fields make_trade_reason
      count_signal_def split: option.splits list.splits)

lemma run_length:
  assumes "run bt df f symbol warmup = Inr (bt', m)"
  shows "length (ab_equity_curve bt')
         = length (ab_equity_curve bt) + (length df - warmup) + count_signal (bm_trades m)"
proof -
  let ?st0 = "\<lparr> rs_capital = ab_capital bt,
                  rs_equity_curve = ab_equity_curve bt,
                  rs_trades = ab_trades bt,
                  rs_position = None,
                  rs_capital_high = ab_initial_capital bt,
                  rs_winning_trades = 0,
                  rs_losing_trades = 0,
                  rs_gross_profit = 0,
                  rs_gross_loss = 0,
                  rs_metrics_trades = [] \<rparr>"
  from assms obtain st1 st2 where
    l: "run_loop bt f symbol df [warmup..<length df] ?st0 = Inr st1"
    and c: "close_open_position bt symbol df st1 = Inr st2"
    and r: "ab_equity_curve bt' = rs_equity_curve st2" "bm_trades m = rs_metrics_trades st2"
    by (auto simp: run_def Let_def final_metrics_def split: sum.splits if_splits)
  from run_loop_length [OF l] close_open_position_length [OF c] r
  show ?thesis by (simp add: count_signal_def)
qed

text \<open>The engine of engine.py appends to its curve exactly when it books a trade.\<close>

lemma run_backtest_bar_length:
  "run_backtest_bar strategy symbol df (e, pos) i = Inr (e', pos') \<Longrightarrow>
   length (be_equity_curve e') + length (be_trades e)
     = length (be_equity_curve e) + length (be_trades e')"
  by (auto simp: run_backtest_bar_def Let_def engine_close_def
      split: option.splits sum.splits if_splits prod.splits)

lemma run_backtest_loop_length:
  "run_backtest_loop strategy symbol df is (e, pos) = Inr (e', pos') \<Longrightarrow>
   length (be_equity_curve e') + length (be_trades e)
     = length (be_equity_curve e) + length (be_trades e')"
proof (induction "is" arbitrary: e pos)
  case Nil
  then show ?case by simp
next
  case (Cons i rest)
  then obtain e1 p1 where b: "run_backtest_bar strategy symbol df (e, pos) i = Inr (e1, p1)"
    and l: "run_backtest_loop strategy symbol df rest (e1, p1) = Inr (e', pos')"
    by (auto split: sum.splits)
  from run_backtest_bar_length [OF b] Cons.IH [OF l] show ?case by simp
qed

lemma run_backtest_length:
  assumes "run_backtest e strategy df symbol start_idx = Inr e'"
  shows "length (be_equity_curve e') + length (be_trades e)
         = length (be_equity_curve e) + length (be_trades e')"
proof -
  from assms obtain e1 pos where
    l: "run_backtest_loop strategy symbol df [start_idx..<length df] (e, None) = Inr (e1, pos)"
    and c: "(pos = None \<and> e' = e1)
            \<or> (\<exists>p. pos = Some p
                  \<and> e' = engine_close e1 symbol p (bar_timestamp (last df))
                           (bar_close (last df)) ''end_of_data'')"
    by (auto simp: run_backtest_def Let_def
        split: sum.splits option.splits list.splits if_splits prod.splits)
  from run_backtest_loop_length [OF l] c show ?thesis
    by (auto simp: engine_close_def Let_def)
qed

text \<open>The definitions unfolded when a run is evaluated on a concrete frame.\<close>

lemmas adv_eval = run_def run_bar_def AdvancedBacktester_init_def flat_bar_def
  fill_price_def get_slippage_multiplier_def ExecutionMetrics_default_def
  update_equity_def book_trade_def make_trade_def close_open_position_def final_metrics_def
  get_loc_def count_signal_def upt_conv_Cons Let_def

lemmas eng_eval = run_backtest_def run_backtest_bar_def BacktestEngine_init_def
  engine_close_def

text \<open>
  Claim C1, as stated, on two runs from freshly built objects. The engine of engine.py,
  run over three bars with a strategy that always holds, processes three bars and leaves
  the equity curve at its seed: one entry, not four. The advanced backtester, run over
  two bars with a BUY on the first and a SELL on the second, processes two bars and ends
  with four entries, not three: the bar of the exit appends twice.
\<close>

theorem equity_curve_not_one_per_bar:
  "run_backtest (BacktestEngine_init 100000 (2 / 10000) 1) always_hold
       [flat_bar 0 10, flat_bar 1 11, flat_bar 2 12] ''EURUSD'' 0
     = Inr (BacktestEngine_init 100000 (2 / 10000) 1)
   \<and> length (be_equity_curve (BacktestEngine_init 100000 (2 / 10000) 1)) = 1
   \<and> \<not> isl (run (AdvancedBacktester_init 100000 (2 / 100) None)
               [flat_bar 0 10, flat_bar 1 11] buy_then_sell ''STOCK'' 0)
   \<and> length (ab_equity_curve (fst (projr (run (AdvancedBacktester_init 100000 (2 / 100) None)
               [flat_bar 0 10, flat_bar 1 11] buy_then_sell ''STOCK'' 0)))) = 4"
  by (simp add: adv_eval eng_eval always_hold_def buy_then_sell_def)

text \<open>
  Claim C1, amended. After a completed \<^verbatim>\<open>AdvancedBacktester.run\<close> the equity curve has
  gained at least one entry per bar processed after warm-up, and exactly one per
  processed bar when no position was closed on a SELL signal during the run; from a
  fresh backtester that is the seed plus one value per bar. After a completed
  \<^verbatim>\<open>BacktestEngine.run_backtest\<close> the equity curve has gained exactly one entry per
  trade closed during the run; from a fresh engine that is the seed plus one value per
  trade.
\<close>

theorem equity_curve_length:
  "(run bt df signal_func symbol warmup_periods = Inr (bt', m) \<longrightarrow>
      length (ab_equity_curve bt) + (length df - warmup_periods) \<le> length (ab_equity_curve bt')
      \<and> (count_signal (bm_trades m) = 0 \<longrightarrow>
           length (ab_equity_curve bt')
             = length (ab_equity_curve bt) + (length df - warmup_periods)))
   \<and> (run_backtest e strategy df2 symbol2 start_idx = Inr e' \<longrightarrow>
      length (be_equity_curve e') + length (be_trades e)
        = length (be_equity_curve e) + length (be_trades e'))"
  using run_length [of bt df signal_func symbol warmup_periods bt' m]
    run_backtest_length [of e strategy df2 symbol2 start_idx e']
  by auto

theorem equity_curve_length_witness:
  "\<not> isl (run (AdvancedBacktester_init 100000 (2 / 100) None)
            [flat_bar 0 10, flat_bar 1 11] buy_once ''STOCK'' 0)
   \<and> count_signal (bm_trades (snd (projr (run (AdvancedBacktester_init 100000 (2 / 100) None)
            [flat_bar 0 10, flat_bar 1 11] buy_once ''STOCK'' 0)))) = 0
   \<and> length (ab_equity_curve (fst (projr (run (AdvancedBacktester_init 100000 (2 / 100) None)
            [flat_bar 0 10, flat_bar 1 11] buy_once ''STOCK'' 0)))) = 1 + 2
   \<and> \<not> isl (run_backtest (BacktestEngine_init 100000 (2 / 10000) 1) buy_then_sell
            [flat_bar 0 10, flat_bar 1 11] ''EURUSD'' 0)
   \<and> length (be_trades (projr (run_backtest (BacktestEngine_init 100000 (2 / 10000) 1)
            buy_then_sell [flat_bar 0 10, flat_bar 1 11] ''EURUSD'' 0))) = 1
   \<and> length (be_equity_curve (projr (run_backtest (BacktestEngine_init 100000 (2 / 10000) 1)
            buy_then_sell [flat_bar 0 10, flat_bar 1 11] ''EURUSD'' 0))) = 1 + 1"
proof -
  let ?bt = "AdvancedBacktester_init 100000 (2 / 100) None"
  let ?e = "BacktestEngine_init 100000 (2 / 10000) 1"
  let ?df = "[flat_bar 0 10, flat_bar 1 11]"
  have a: "\<not> isl (run ?bt ?df buy_once ''STOCK'' 0)"
    by (simp add: adv_eval buy_once_def)
  have c: "count_signal (bm_trades (snd (projr (run ?bt ?df buy_once ''STOCK'' 0)))) = 0"
    by (simp add: adv_eval buy_once_def)
  have b: "\<not> isl (run_backtest ?e buy_then_sell ?df ''EURUSD'' 0)"
    by (simp add: adv_eval eng_eval buy_then_sell_def)
  have t: "length (be_trades (projr (run_backtest ?e buy_then_sell ?df ''EURUSD'' 0))) = 1"
    by (simp add: adv_eval eng_eval buy_then_sell_def)
  obtain bt' m where r: "run ?bt ?df buy_once ''STOCK'' 0 = Inr (bt', m)"
    using a by (cases "run ?bt ?df buy_once ''STOCK'' 0") auto
  obtain e' where q: "run_backtest ?e buy_then_sell ?df ''EURUSD'' 0 = Inr e'"
    using b by (cases "run_backtest ?e buy_then_sell ?df ''EURUSD'' 0") auto
  have i0: "length (ab_equity_curve ?bt) = 1" "length (be_equity_curve ?e) = 1"
    "length (be_trades ?e) = 0"
    by (simp_all add: AdvancedBacktester_init_def BacktestEngine_init_def)
  from equity_curve_length [of ?bt ?df buy_once "''STOCK''" 0 bt' m
      ?e buy_then_sell ?df "''EURUSD''" 0 e'] r q c t i0
  have "length (ab_equity_curve bt') = 1 + 2" "length (be_equity_curve e') = 1 + 1"
    by simp_all
  with a b c t r q show ?thesis by simp
qed

section \<open>A strategy that raises\<close>

text \<open>In the advanced run a failing signal function leaves the bar with nothing but the
  equity entry that a HOLD gives.\<close>

lemma run_bar_caught:
  "isl (f (take (i + 1) df)) \<Longrightarrow>
   run_bar bt f symbol df st i = Inr (update_equity st (bar_close (df ! i)))"
  by (cases "f (take (i + 1) df)")
     (simp_all add: run_bar_def Let_def split: option.splits)

lemma run_bar_hold:
  "run_bar bt always_hold symbol df st i = Inr (update_equity st (bar_close (df ! i)))"
  by (simp add: run_bar_def always_hold_def Let_def split: option.splits)

lemma run_loop_raising:
  "\<forall>i\<in>set is. isl (f (take (i + 1) df)) \<Longrightarrow> rs_position st = None \<Longrightarrow>
   run_loop bt f symbol df is st
     = Inr (st\<lparr>rs_equity_curve := rs_equity_curve st @ replicate (length is) (rs_capital st)\<rparr>)"
proof (induction "is" arbitrary: st)
  case Nil
  then show ?case by simp
next
  case (Cons i rest)
  let ?st1 = "st\<lparr>rs_equity_curve := rs_equity_curve st @ [rs_capital st]\<rparr>"
  have b: "run_bar bt f symbol df st i = Inr ?st1"
    using Cons.prems by (simp add: run_bar_caught update_equity_def)
  have "run_loop bt f symbol df rest ?st1
        = Inr (?st1\<lparr>rs_equity_curve :=
                      rs_equity_curve ?st1 @ replicate (length rest) (rs_capital ?st1)\<rparr>)"
    using Cons.prems by (intro Cons.IH) simp_all
  with b show ?case by (simp add: replicate_app_Cons_same)
qed

lemma run_always_raising:
  assumes "\<forall>j. warmup \<le> j \<and> j < length df \<longrightarrow> isl (f (take (j + 1) df))"
    and "ab_initial_capital bt \<noteq> 0"
  shows "\<exists>bt' m. run bt df f symbol warmup = Inr (bt', m)
           \<and> bm_trades m = [] \<and> ab_trades bt' = ab_trades bt
           \<and> ab_capital bt' = ab_capital bt
           \<and> ab_equity_curve bt'
               = ab_equity_curve bt @ replicate (length df - warmup) (ab_capital bt)"
proof -
  let ?st0 = "\<lparr> rs_capital = ab_capital bt,
                  rs_equity_curve = ab_equity_curve bt,
                  rs_trades = ab_trades bt,
                  rs_position = None,
                  rs_capital_high = ab_initial_capital bt,
                  rs_winning_trades = 0,
                  rs_losing_trades = 0,
                  rs_gross_profit = 0,
                  rs_gross_loss = 0,
                  rs_metrics_trades = [] \<rparr>"
  have "\<forall>i\<in>set [warmup..<length df]. isl (f (take (i + 1) df))"
    using assms(1) by simp
  then have "run_loop bt f symbol df [warmup..<length df] ?st0
        = Inr (?st0\<lparr>rs_equity_curve := rs_equity_curve ?st0
                        @ replicate (length [warmup..<length df]) (rs_capital ?st0)\<rparr>)"
    by (intro run_loop_raising) simp_all
  then show ?thesis
    using assms(2) by (simp add: run_def Let_def close_open_position_def final_metrics_def)
qed

lemma run_backtest_loop_abort:
  "i \<in> set is \<Longrightarrow> isl (strategy (take (i + 1) df)) \<Longrightarrow>
   isl (run_backtest_loop strategy symbol df is st)"
proof (induction "is" arbitrary: st)
  case Nil
  then show ?case by simp
next
  case (Cons j rest)
  show ?case
  proof (cases "run_backtest_bar strategy symbol df st j")
    case (Inl err)
    then show ?thesis by simp
  next
    case (Inr st1)
    then have "j \<noteq> i"
      using Cons.prems(2)
      by (cases st) (auto simp: run_backtest_bar_def Let_def split: sum.splits)
    then have "i \<in> set rest" using Cons.prems(1) by simp
    then show ?thesis using Inr Cons.IH Cons.prems(2) by simp
  qed
qed

lemma run_backtest_abort:
  "start_idx \<le> i \<Longrightarrow> i < length df \<Longrightarrow> isl (strategy (take (i + 1) df)) \<Longrightarrow>
   isl (run_backtest e strategy df symbol start_idx)"
  using run_backtest_loop_abort [of i "[start_idx..<length df]" strategy df symbol "(e, None)"]
  by (auto simp: run_backtest_def split: sum.splits)

text \<open>
  Claim C2, as stated, on the engine of engine.py, run over one bar with a strategy that
  raises: the exception leaves \<^verbatim>\<open>run_backtest\<close>, and the run is aborted.
\<close>

theorem run_backtest_strategy_exception_aborts:
  "run_backtest (BacktestEngine_init 100000 (2 / 10000) 1) always_raising
     [flat_bar 0 10] ''EURUSD'' 0 = Inl StrategyError"
  by (simp add: adv_eval eng_eval always_raising_def)

text \<open>
  Claim C2, amended. During an \<^verbatim>\<open>AdvancedBacktester.run\<close>, an exception raised by the
  signal function on a bar is caught and the bar proceeds exactly as with
  \<^verbatim>\<open>("HOLD", 0.0)\<close>: it only appends its equity value, and the loop continues. A signal
  function that raises on every processed bar yields, for a nonzero initial capital, a
  completed run with no trade, the capital unchanged and one equity entry per bar.
  \<^verbatim>\<open>BacktestEngine.run_backtest\<close> has no handler: an exception raised by its strategy
  on any processed bar aborts the run.
\<close>

theorem strategy_exception_handling:
  "(isl (signal_func (take (i + 1) df)) \<longrightarrow>
      run_bar bt signal_func symbol df st i = run_bar bt always_hold symbol df st i
      \<and> run_bar bt signal_func symbol df st i = Inr (update_equity st (bar_close (df ! i))))
   \<and> ((\<forall>j. warmup_periods \<le> j \<and> j < length df \<longrightarrow> isl (signal_func (take (j + 1) df)))
        \<and> ab_initial_capital bt \<noteq> 0 \<longrightarrow>
      (\<exists>bt' m. run bt df signal_func symbol warmup_periods = Inr (bt', m)
         \<and> bm_trades m = [] \<and> ab_trades bt' = ab_trades bt
         \<and> ab_capital bt' = ab_capital bt
         \<and> ab_equity_curve bt'
             = ab_equity_curve bt @ replicate (length df - warmup_periods) (ab_capital bt)))
   \<and> (start_idx \<le> k \<and> k < length df2 \<and> isl (strategy (take (k + 1) df2)) \<longrightarrow>
        isl (run_backtest e strategy df2 symbol2 start_idx))"
  using run_bar_caught [of signal_func i df bt symbol st] run_bar_hold [of bt symbol df st i]
    run_always_raising [of warmup_periods df signal_func bt symbol]
    run_backtest_abort [of start_idx k df2 strategy e symbol2]
  by simp

theorem strategy_exception_handling_witness:
  "run_bar (AdvancedBacktester_init 100000 (2 / 100) None) always_raising ''STOCK''
       [flat_bar 0 10, flat_bar 1 11, flat_bar 2 12]
       \<lparr> rs_capital = 100000, rs_equity_curve = [100000], rs_trades = [],
         rs_position = None, rs_capital_high = 100000, rs_winning_trades = 0,
         rs_losing_trades = 0, rs_gross_profit = 0, rs_gross_loss = 0,
         rs_metrics_trades = [] \<rparr> 1
     = Inr \<lparr> rs_capital = 100000, rs_equity_curve = [100000, 100000], rs_trades = [],
         rs_position = None, rs_capital_high = 100000, rs_winning_trades = 0,
         rs_losing_trades = 0, rs_gross_profit = 0, rs_gross_loss = 0,
         rs_metrics_trades = [] \<rparr>
   \<and> \<not> isl (run (AdvancedBacktester_init 100000 (2 / 100) None)
             [flat_bar 0 10, flat_bar 1 11, flat_bar 2 12] always_raising ''STOCK'' 1)
   \<and> ab_trades (fst (projr (run (AdvancedBacktester_init 100000 (2 / 100) None)
             [flat_bar 0 10, flat_bar 1 11, flat_bar 2 12] always_raising ''STOCK'' 1))) = []
   \<and> ab_equity_curve (fst (projr (run (AdvancedBacktester_init 100000 (2 / 100) None)
             [flat_bar 0 10, flat_bar 1 11, flat_bar 2 12] always_raising ''STOCK'' 1)))
       = [100000, 100000, 100000]
   \<and> isl (run_backtest (BacktestEngine_init 100000 (2 / 10000) 1) always_raising
             [flat_bar 0 10, flat_bar 1 11, flat_bar 2 12] ''EURUSD'' 1)"
  using strategy_exception_handling [of always_raising 1
      "[flat_bar 0 10, flat_bar 1 11, flat_bar 2 12]"
      "AdvancedBacktester_init 100000 (2 / 100) None" "''STOCK''"
      "\<lparr> rs_capital = 100000, rs_equity_curve = [100000], rs_trades = [],
         rs_position = None, rs_capital_high = 100000, rs_winning_trades = 0,
         rs_losing_trades = 0, rs_gross_profit = 0, rs_gross_loss = 0,
         rs_metrics_trades = [] \<rparr>"
      1 1 2 "[flat_bar 0 10, flat_bar 1 11, flat_bar 2 12]" always_raising
      "BacktestEngine_init 100000 (2 / 10000) 1" "''EURUSD''"]
  by (auto simp: always_raising_def AdvancedBacktester_init_def update_equity_def flat_bar_def
      numeral_3_eq_3)

end
